theory Spec2Isabelle
  imports Main "HOL-Library.Char_ord" "HOL-Library.List_Lexorder"
begin

section \<open>Python values shared by the client modules\<close>

text \<open>
  Exceptions of the Python runtime that the modelled functions can raise.  A function
  that may raise returns \<open>pyerr + 'a\<close>, with \<open>Inl\<close> for the exception.
\<close>

datatype pyerr = KeyError | TypeError | AttributeError | ValueError | NameError | OSError

text \<open>
  Keys of a Python dictionary that mixes integer and string keys
  (\<^verbatim>\<open>SLEEP_RETRY_INTERVALS\<close> does).
\<close>

datatype dict_key = IntKey int | StrKey string

text \<open>\<^verbatim>\<open>d.get(k, dflt)\<close> and \<^verbatim>\<open>d[k]\<close> on a dictionary kept as an association list.\<close>

definition dict_get :: "('k \<times> 'v) list \<Rightarrow> 'k \<Rightarrow> 'v \<Rightarrow> 'v" where
  "dict_get d k dflt = (case map_of d k of Some v \<Rightarrow> v | None \<Rightarrow> dflt)"

definition dict_index :: "('k \<times> 'v) list \<Rightarrow> 'k \<Rightarrow> pyerr + 'v" where
  "dict_index d k = (case map_of d k of Some v \<Rightarrow> Inr v | None \<Rightarrow> Inl KeyError)"

section \<open>timing_config.py: the sleep-retry schedule\<close>

text \<open>
  \<^verbatim>\<open>SLEEP_RETRY_INTERVALS = {0: 0, 1: 60, 2: 120, "default": 300}\<close>
\<close>

definition SLEEP_RETRY_INTERVALS :: "(dict_key \<times> int) list" where
  "SLEEP_RETRY_INTERVALS =
     [(IntKey 0, 0), (IntKey 1, 60), (IntKey 2, 120), (StrKey ''default'', 300)]"

text \<open>
  \<^verbatim>\<open>return SLEEP_RETRY_INTERVALS.get(retry_count, SLEEP_RETRY_INTERVALS["default"])\<close>:
  Python evaluates the default argument (an indexing that could raise \<open>KeyError\<close>)
  before the lookup.
\<close>

definition get_sleep_retry_interval :: "int \<Rightarrow> pyerr + int" where
  "get_sleep_retry_interval retry_count =
     (case dict_index SLEEP_RETRY_INTERVALS (StrKey ''default'') of
        Inl e \<Rightarrow> Inl e
      | Inr dflt \<Rightarrow> Inr (dict_get SLEEP_RETRY_INTERVALS (IntKey retry_count) dflt))"

section \<open>state_manager.py: the lifecycle state manager\<close>

datatype ClientState =
  UNREGISTERED | REGISTERING | REGISTERED | DELETED | REINITIALIZED | SLEEP_RETRY | ERROR

text \<open>The \<^verbatim>\<open>.value\<close> of each member of the enum, as written to the state file.\<close>

fun state_value :: "ClientState \<Rightarrow> string" where
  "state_value UNREGISTERED = ''unregistered''"
| "state_value REGISTERING = ''registering''"
| "state_value REGISTERED = ''registered''"
| "state_value DELETED = ''deleted''"
| "state_value REINITIALIZED = ''reinitialized''"
| "state_value SLEEP_RETRY = ''sleep_retry''"
| "state_value ERROR = ''error''"

subsection \<open>JSON values and the persisted files\<close>

text \<open>
  Values that come out of \<^verbatim>\<open>json.load\<close> / \<^verbatim>\<open>resp.json()\<close> and that live in
  \<^verbatim>\<open>RUNTIME_CONFIG\<close>.  Numbers are integers here; no modelled branch reads a float.
\<close>

datatype json =
  JNull | JBool bool | JInt int | JStr string | JList "json list" | JDict "(string \<times> json) list"

text \<open>Python truthiness (\<^verbatim>\<open>if v\<close>, \<^verbatim>\<open>not v\<close>) of such a value.\<close>

fun truthy :: "json \<Rightarrow> bool" where
  "truthy JNull = False"
| "truthy (JBool b) = b"
| "truthy (JInt n) = (n \<noteq> 0)"
| "truthy (JStr s) = (s \<noteq> [])"
| "truthy (JList xs) = (xs \<noteq> [])"
| "truthy (JDict kvs) = (kvs \<noteq> [])"

text \<open>
  The files the state manager touches, all relative to the working directory:
  \<^verbatim>\<open>client_state.json\<close>, \<^verbatim>\<open>.client_delete_marker\<close>, \<^verbatim>\<open>client_id.txt\<close>,
  \<^verbatim>\<open>reinit_info.json\<close> and \<^verbatim>\<open>reactivation_info.json\<close>.
\<close>

datatype path = StateFile | DeleteMarkerFile | ClientIdFile | ReinitFile | ReactivationFile

text \<open>
  What a file holds: plain text, or one of the JSON objects the manager dumps:
  \<^verbatim>\<open>{"state": s, "timestamp": t}\<close>, \<^verbatim>\<open>{"reinit_timestamp": t, "reinit_count": n}\<close>,
  \<^verbatim>\<open>{"reactivation_timestamp": t, "previous_reinit_count": n}\<close>.
\<close>

datatype file_data =
  Text string | StateJson string int | ReinitJson int int | ReactivationJson int int

text \<open>
  What the environment supplies to one call: the clock reading \<^verbatim>\<open>int(time.time())\<close>,
  the value \<^verbatim>\<open>str(uuid.uuid4())\<close> would return, and which paths the file system lets
  the process write or unlink (an operation on another path raises \<open>OSError\<close>).
\<close>

record env =
  now :: int
  uuid4 :: string
  writable :: "path \<Rightarrow> bool"

text \<open>
  The \<^verbatim>\<open>StateManager\<close> object (\<open>state\<close>, \<open>error_start_time\<close>,
  \<open>error_retry_count\<close>), the files, the module-level dictionary
  \<^verbatim>\<open>config.RUNTIME_CONFIG\<close>, and the state-change lines the manager logs
  (\<^verbatim>\<open>logger.info("... %s -> %s", old_state.value, new_state.value)\<close>), oldest first.
\<close>

record world =
  state :: ClientState
  error_start_time :: int
  error_retry_count :: int
  files :: "path \<Rightarrow> file_data option"
  RUNTIME_CONFIG :: "string \<Rightarrow> json option"
  transitions :: "(ClientState \<times> ClientState) list"

definition write_file :: "env \<Rightarrow> path \<Rightarrow> file_data \<Rightarrow> world \<Rightarrow> pyerr + world" where
  "write_file e p d w =
     (if writable e p then Inr (w\<lparr>files := (files w)(p \<mapsto> d)\<rparr>) else Inl OSError)"

definition unlink :: "env \<Rightarrow> path \<Rightarrow> world \<Rightarrow> pyerr + world" where
  "unlink e p w =
     (if writable e p \<and> files w p \<noteq> None then Inr (w\<lparr>files := (files w)(p := None)\<rparr>)
      else Inl OSError)"

subsection \<open>Saving and setting the state\<close>

text \<open>\<^verbatim>\<open>_save_state\<close>: a failed write is logged and swallowed.\<close>

definition save_state :: "env \<Rightarrow> world \<Rightarrow> world" where
  "save_state e w =
     (case write_file e StateFile (StateJson (state_value (state w)) (now e)) w of
        Inl err \<Rightarrow> w
      | Inr w' \<Rightarrow> w')"

text \<open>\<^verbatim>\<open>set_state\<close>, branch by branch.\<close>

definition set_state :: "env \<Rightarrow> ClientState \<Rightarrow> world \<Rightarrow> world" where
  "set_state e new_state w =
     (if state w \<noteq> new_state then
        let old_state = state w;
            w1 = w\<lparr>state := new_state\<rparr>;
            w2 = (if new_state = ERROR then
                    (if old_state \<noteq> ERROR
                     then w1\<lparr>error_start_time := now e, error_retry_count := 0\<rparr>
                     else w1\<lparr>error_retry_count := error_retry_count w1 + 1\<rparr>)
                  else
                    (if old_state = ERROR
                     then w1\<lparr>error_start_time := 0, error_retry_count := 0\<rparr>
                     else w1));
            w3 = save_state e w2
        in w3\<lparr>transitions := transitions w3 @ [(old_state, new_state)]\<rparr>
      else w)"

definition check_delete_marker :: "world \<Rightarrow> bool" where
  "check_delete_marker w = (files w DeleteMarkerFile \<noteq> None)"

subsection \<open>Reinitialisation\<close>

text \<open>
  \<^verbatim>\<open>_get_reinit_count\<close>: the stored count, and 0 when the file is absent or is not the
  object the manager writes (every exception is swallowed).
\<close>

definition get_reinit_count :: "world \<Rightarrow> int" where
  "get_reinit_count w =
     (case files w ReinitFile of Some (ReinitJson t n) \<Rightarrow> n | _ \<Rightarrow> 0)"

text \<open>
  \<^verbatim>\<open>_regenerate_client_id\<close>: unlink the old identifier file when it exists, then write
  a fresh UUID.  Neither call is guarded, so a refusal of the file system propagates;
  it happens before anything is changed.
\<close>

definition regenerate_client_id :: "env \<Rightarrow> world \<Rightarrow> pyerr + world" where
  "regenerate_client_id e w =
     (case (if files w ClientIdFile \<noteq> None then unlink e ClientIdFile w else Inr w) of
        Inl err \<Rightarrow> Inl err
      | Inr w1 \<Rightarrow> write_file e ClientIdFile (Text (uuid4 e)) w1)"

definition auth_keys :: "string list" where
  "auth_keys = [''auth_token'', ''server_id'', ''report_url'']"

text \<open>\<^verbatim>\<open>_clear_auth_info\<close>: pop each of the keys that is present.\<close>

definition clear_auth_info :: "world \<Rightarrow> world" where
  "clear_auth_info w =
     fold (\<lambda>key w'. if RUNTIME_CONFIG w' key \<noteq> None
                     then w'\<lparr>RUNTIME_CONFIG := (RUNTIME_CONFIG w')(key := None)\<rparr>
                     else w')
          auth_keys w"

text \<open>\<^verbatim>\<open>_reset_device_config\<close> only logs.\<close>

definition reset_device_config :: "world \<Rightarrow> world" where
  "reset_device_config w = w"

text \<open>\<^verbatim>\<open>_save_reinit_timestamp\<close>: a failed write is logged and swallowed.\<close>

definition save_reinit_timestamp :: "env \<Rightarrow> world \<Rightarrow> world" where
  "save_reinit_timestamp e w =
     (let reinit_data = ReinitJson (now e) (get_reinit_count w + 1)
      in case write_file e ReinitFile reinit_data w of Inl err \<Rightarrow> w | Inr w' \<Rightarrow> w')"

text \<open>
  \<^verbatim>\<open>reinitialize_device\<close>: the five steps inside \<^verbatim>\<open>try\<close>; the only step that
  can raise is the first, and the handler then sets \<open>ERROR\<close>.
\<close>

definition reinitialize_device :: "env \<Rightarrow> world \<Rightarrow> world" where
  "reinitialize_device e w =
     (case regenerate_client_id e w of
        Inl err \<Rightarrow> set_state e ERROR w
      | Inr w1 \<Rightarrow>
          save_reinit_timestamp e
            (set_state e REINITIALIZED (reset_device_config (clear_auth_info w1))))"


subsection \<open>Automatic recovery from the error state\<close>

text \<open>
  \<^verbatim>\<open>_attempt_error_recovery\<close>.  Nothing inside its \<^verbatim>\<open>try\<close> raises: both callees
  handle their own exceptions.
\<close>

definition attempt_error_recovery :: "env \<Rightarrow> world \<Rightarrow> world" where
  "attempt_error_recovery e w =
     (if check_delete_marker w then reinitialize_device e w
      else set_state e UNREGISTERED w)"

definition MAX_ERROR_DURATION :: int where
  "MAX_ERROR_DURATION = 300"

definition MAX_ERROR_RETRIES :: int where
  "MAX_ERROR_RETRIES = 10"

text \<open>\<^verbatim>\<open>_should_auto_recover_from_error\<close>: the answer and the world it leaves.\<close>

definition should_auto_recover_from_error :: "env \<Rightarrow> world \<Rightarrow> bool \<times> world" where
  "should_auto_recover_from_error e w =
     (if state w \<noteq> ERROR then (False, w)
      else
        let current_time = now e;
            error_duration = current_time - error_start_time w
        in if error_duration \<ge> MAX_ERROR_DURATION then (True, attempt_error_recovery e w)
           else if error_retry_count w \<ge> MAX_ERROR_RETRIES
                then (True, attempt_error_recovery e w)
           else (False, w))"

text \<open>\<^verbatim>\<open>should_stop_registration\<close> (and the identical \<^verbatim>\<open>should_stop_reporting\<close>).\<close>

definition should_stop_registration :: "env \<Rightarrow> world \<Rightarrow> bool \<times> world" where
  "should_stop_registration e w =
     (if state w = ERROR
      then (let (r, w') = should_auto_recover_from_error e w in (\<not> r, w'))
      else (False, w))"

section \<open>sender.py: the deletion signal of a report response\<close>




section \<open>cache.py: the durable queue\<close>

text \<open>
  One row of the table \<^verbatim>\<open>metrics (id INTEGER PRIMARY KEY AUTOINCREMENT, timestamp
  INTEGER NOT NULL, data TEXT NOT NULL, sent INTEGER DEFAULT 0)\<close>.  The column \<open>data\<close>
  holds \<^verbatim>\<open>json.dumps\<close> of the sample and is read back with \<^verbatim>\<open>json.loads\<close>; the
  model stores the sample itself, of an arbitrary type \<open>'p\<close>.
\<close>

record 'p row =
  id_col :: int
  timestamp :: int
  data :: 'p
  sent :: int

text \<open>
  The table: its rows in insertion order, and the counter SQLite keeps for an
  \<^verbatim>\<open>AUTOINCREMENT\<close> key (the largest key ever handed out; 0 for a new table).
\<close>

record 'p metrics =
  rows :: "'p row list"
  seq :: int

definition empty_metrics :: "'p metrics" where
  "empty_metrics = \<lparr>rows = [], seq = 0\<rparr>"

text \<open>
  The key of the next inserted row: one more than the largest key that has ever existed
  in the table.
\<close>

definition next_id :: "'p metrics \<Rightarrow> int" where
  "next_id db = fold max (map id_col (rows db)) (seq db) + 1"


text \<open>
  \<^verbatim>\<open>Cache.get_unsent\<close>:
  \<^verbatim>\<open>SELECT id, timestamp, data FROM metrics WHERE sent = 0 ORDER BY id LIMIT ?\<close>.
  A negative \<^verbatim>\<open>LIMIT\<close> means no bound in SQLite.  Each result is the dictionary
  \<^verbatim>\<open>{"id": .., "timestamp": .., "data": ..}\<close>, here a triple.
\<close>

definition entry :: "'p row \<Rightarrow> int \<times> int \<times> 'p" where
  "entry r = (id_col r, timestamp r, data r)"


text \<open>
  \<^verbatim>\<open>Cache.mark_sent\<close>: nothing for an empty list, else one
  \<^verbatim>\<open>UPDATE metrics SET sent = 1 WHERE id = ?\<close> for each element.
\<close>

definition update_sent :: "int \<Rightarrow> 'p metrics \<Rightarrow> 'p metrics" where
  "update_sent i db =
     db\<lparr>rows := map (\<lambda>r. if id_col r = i then r\<lparr>sent := 1\<rparr> else r) (rows db)\<rparr>"


text \<open>
  \<^verbatim>\<open>Cache.prune\<close>: \<^verbatim>\<open>threshold = int(time.time()) - max_age_seconds\<close>, then
  \<^verbatim>\<open>DELETE FROM metrics WHERE timestamp < ?\<close>.
\<close>

definition prune :: "int \<Rightarrow> int \<Rightarrow> 'p metrics \<Rightarrow> 'p metrics" where
  "prune current_time max_age_seconds db =
     (let threshold = current_time - max_age_seconds
      in db\<lparr>rows := filter (\<lambda>r. \<not> timestamp r < threshold) (rows db)\<rparr>)"

section \<open>config.py: the runtime configuration\<close>

text \<open>
  Strings are the UTF-8 bytes of the Python \<^verbatim>\<open>str\<close>; a literal outside ASCII is
  written byte by byte.
\<close>

text \<open>
  \<^verbatim>\<open>BASE_URL = os.getenv("SERVER_URL", "http://localhost:8045")\<close>: the value without the
  environment variable.  Nothing below depends on it.
\<close>

definition BASE_URL :: string where
  "BASE_URL = ''http://localhost:8045''"

definition DEFAULT_CONFIG :: "(string \<times> json) list" where
  "DEFAULT_CONFIG =
     [(''status'', JStr ''accepted''),
      (''server_id'', JNull),
      (''is_active'', JBool True),
      (''report_interval'', JInt 30),
      (''monitor_items'', JDict
         [(''cpu'', JDict [(''enabled'', JBool True), (''collect_temp'', JBool True),
                           (''collect_power'', JBool True)]),
          (''memory'', JDict [(''enabled'', JBool True)]),
          (''disk'', JDict [(''enabled'', JBool True), (''paths'', JList [])]),
          (''gpu'', JDict [(''enabled'', JBool True), (''collect_temp'', JBool True),
                           (''collect_power'', JBool True)])]),
      (''monitor_config'', JDict
         [(''mode'', JStr ''CONTINUOUS''), (''schedule'', JDict []), (''countdown'', JDict [])]),
      (''report_url'', JStr (BASE_URL @ ''/api/agent/report''))]"

text \<open>\<^verbatim>\<open>RUNTIME_CONFIG.get(key, DEFAULT_CONFIG[key])\<close> for a key of the defaults.\<close>

definition runtime_get :: "(string \<Rightarrow> json option) \<Rightarrow> string \<Rightarrow> pyerr + json" where
  "runtime_get rc key =
     (case dict_index DEFAULT_CONFIG key of
        Inl e \<Rightarrow> Inl e
      | Inr dflt \<Rightarrow> Inr (case rc key of Some v \<Rightarrow> v | None \<Rightarrow> dflt))"

text \<open>
  \<^verbatim>\<open>is_monitoring_enabled\<close>: some value of \<open>monitor_items\<close> is a dictionary whose
  \<open>enabled\<close> entry is truthy.  When \<open>monitor_items\<close> is not a dictionary,
  \<^verbatim>\<open>.values()\<close> raises and the handler answers \<open>True\<close>.
\<close>

definition item_enabled :: "json \<Rightarrow> bool" where
  "item_enabled item_config =
     (case item_config of
        JDict c \<Rightarrow> truthy (dict_get c ''enabled'' (JBool False))
      | _ \<Rightarrow> False)"

definition is_monitoring_enabled :: "(string \<Rightarrow> json option) \<Rightarrow> bool" where
  "is_monitoring_enabled rc =
     (case runtime_get rc ''monitor_items'' of
        Inr (JDict monitor_items) \<Rightarrow> list_ex item_enabled (map snd monitor_items)
      | _ \<Rightarrow> True)"

text \<open>\<^verbatim>\<open>is_server_active\<close> returns the stored value as it is; callers test its truth.\<close>

definition is_server_active :: "(string \<Rightarrow> json option) \<Rightarrow> json" where
  "is_server_active rc =
     (case runtime_get rc ''is_active'' of Inr v \<Rightarrow> v | Inl e \<Rightarrow> JNull)"

section \<open>monitor_config.py: the monitoring window\<close>

text \<open>
  A \<^verbatim>\<open>datetime\<close>: naive (a point of the local wall clock) or aware (an instant), each
  counted in microseconds.  Comparing one of each kind raises \<open>TypeError\<close>.
\<close>

datatype pydatetime = Naive int | Aware int

fun dt_less :: "pydatetime \<Rightarrow> pydatetime \<Rightarrow> pyerr + bool" where
  "dt_less (Naive a) (Naive b) = Inr (a < b)"
| "dt_less (Aware a) (Aware b) = Inr (a < b)"
| "dt_less _ _ = Inl TypeError"

text \<open>
  What the \<^verbatim>\<open>datetime\<close> module supplies to one evaluation: of \<^verbatim>\<open>datetime.now()\<close> the
  weekday (0 is Monday), the hour and the minute, and its position on the local wall
  clock; \<^verbatim>\<open>datetime.now(timezone.utc)\<close>; and the library parser
  \<^verbatim>\<open>datetime.fromisoformat\<close> (\<open>None\<close> where it raises \<open>ValueError\<close>).
\<close>

record clock =
  weekday :: nat
  hour :: nat
  minute :: nat
  local_now :: int
  utc_now :: int
  fromisoformat :: "string \<Rightarrow> pydatetime option"

definition digit_char :: "nat \<Rightarrow> char" where
  "digit_char d = char_of (48 + d)"

text \<open>\<^verbatim>\<open>str(n)\<close> for a natural number.\<close>

fun str_nat :: "nat \<Rightarrow> string" where
  "str_nat n = (if n < 10 then [digit_char n] else str_nat (n div 10) @ [digit_char (n mod 10)])"

declare str_nat.simps [simp del]

text \<open>\<^verbatim>\<open>now.strftime('%H:%M')\<close>: two digits each.\<close>

definition two_digits :: "nat \<Rightarrow> string" where
  "two_digits n = [digit_char (n div 10 mod 10), digit_char (n mod 10)]"

definition strftime_HM :: "nat \<Rightarrow> nat \<Rightarrow> string" where
  "strftime_HM h m = two_digits h @ '':'' @ two_digits m"

text \<open>\<^verbatim>\<open>needle in haystack\<close> for two strings.\<close>

fun starts_with :: "string \<Rightarrow> string \<Rightarrow> bool" where
  "starts_with s [] = True"
| "starts_with [] (c # cs) = False"
| "starts_with (x # xs) (c # cs) = (x = c \<and> starts_with xs cs)"

fun str_contains :: "string \<Rightarrow> string \<Rightarrow> bool" where
  "str_contains [] needle = (needle = [])"
| "str_contains (x # xs) needle = (starts_with (x # xs) needle \<or> str_contains xs needle)"

text \<open>
  \<^verbatim>\<open>s in container\<close> for a string \<open>s\<close>: membership in a list, substring of a string,
  key of a dictionary; any other container raises \<open>TypeError\<close>.
\<close>

fun py_contains :: "json \<Rightarrow> string \<Rightarrow> pyerr + bool" where
  "py_contains (JList xs) s = Inr (JStr s \<in> set xs)"
| "py_contains (JStr t) s = Inr (str_contains t s)"
| "py_contains (JDict kvs) s = Inr (s \<in> set (map fst kvs))"
| "py_contains v s = Inl TypeError"

text \<open>
  \<^verbatim>\<open>a <= b\<close> where one side is a string: the order of strings, and \<open>TypeError\<close>
  against any other value.
\<close>

fun py_le :: "json \<Rightarrow> json \<Rightarrow> pyerr + bool" where
  "py_le (JStr a) (JStr b) = Inr (a \<le> b)"
| "py_le a b = Inl TypeError"

text \<open>\<^verbatim>\<open>s.endswith('Z')\<close> and \<^verbatim>\<open>s.replace('Z', '+00:00')\<close>.\<close>

definition endswith_Z :: "string \<Rightarrow> bool" where
  "endswith_Z s = (s \<noteq> [] \<and> last s = CHR ''Z'')"

definition replace_Z :: "string \<Rightarrow> string" where
  "replace_Z s = concat (map (\<lambda>c. if c = CHR ''Z'' then ''+00:00'' else [c]) s)"

text \<open>
  The \<^verbatim>\<open>MonitorConfig\<close> object: the three values its constructor and
  \<^verbatim>\<open>update_config\<close> take from the configuration dictionary.
\<close>

record MonitorConfig =
  mode :: json
  schedule :: json
  countdown :: json

definition update_config :: "(string \<times> json) list \<Rightarrow> MonitorConfig" where
  "update_config config_data =
     \<lparr>mode = dict_get config_data ''mode'' (JStr ''CONTINUOUS''),
      schedule = dict_get config_data ''schedule'' (JDict []),
      countdown = dict_get config_data ''countdown'' (JDict [])\<rparr>"

text \<open>
  \<^verbatim>\<open>_check_scheduled_time\<close>.  \<^verbatim>\<open>self.schedule.get\<close> raises when the schedule is a
  truthy value that is no dictionary.
\<close>

definition check_scheduled_time :: "clock \<Rightarrow> MonitorConfig \<Rightarrow> pyerr + bool" where
  "check_scheduled_time dt mc =
     (if \<not> truthy (schedule mc) then Inr True
      else case schedule mc of
        JDict sch \<Rightarrow>
          (let current_weekday = str_nat (weekday dt + 1);
               current_time = strftime_HM (hour dt) (minute dt);
               days = dict_get sch ''days'' (JList [])
           in case (if truthy days then py_contains days current_weekday else Inr True) of
                Inl e \<Rightarrow> Inl e
              | Inr listed \<Rightarrow>
                  if truthy days \<and> \<not> listed then Inr False
                  else
                    let start_time = dict_get sch ''start_time'' JNull;
                        end_time = dict_get sch ''end_time'' JNull
                    in if truthy start_time \<and> truthy end_time then
                         (case py_le start_time (JStr current_time) of
                            Inl e \<Rightarrow> Inl e
                          | Inr below \<Rightarrow>
                              if below then py_le (JStr current_time) end_time
                              else Inr False)
                       else Inr True)
      | _ \<Rightarrow> Inl AttributeError)"

text \<open>
  \<^verbatim>\<open>_check_countdown_time\<close>.  Inside its own \<^verbatim>\<open>try\<close> every exception (a value that
  is no string, a string the parser rejects, a comparison of a naive with an aware
  time) gives \<open>False\<close>.
\<close>

definition check_countdown_time :: "clock \<Rightarrow> MonitorConfig \<Rightarrow> pyerr + bool" where
  "check_countdown_time dt mc =
     (if \<not> truthy (countdown mc) then Inr False
      else case countdown mc of
        JDict cd \<Rightarrow>
          (let end_time_str = dict_get cd ''end_time'' JNull
           in if \<not> truthy end_time_str then Inr False
              else case end_time_str of
                JStr s \<Rightarrow>
                  (let parsed = (if endswith_Z s then fromisoformat dt (replace_Z s)
                                 else fromisoformat dt s);
                       current_time = (if endswith_Z s then Aware (utc_now dt)
                                       else Naive (local_now dt))
                   in case parsed of
                        None \<Rightarrow> Inr False
                      | Some end_time \<Rightarrow>
                          (case dt_less current_time end_time of
                             Inl e \<Rightarrow> Inr False
                           | Inr is_active \<Rightarrow> Inr is_active))
              | _ \<Rightarrow> Inr False)
      | _ \<Rightarrow> Inl AttributeError)"

text \<open>\<^verbatim>\<open>is_monitoring_time\<close>: any exception of the two checks gives \<open>True\<close>.\<close>

definition is_monitoring_time :: "clock \<Rightarrow> MonitorConfig \<Rightarrow> bool" where
  "is_monitoring_time dt mc =
     (case (if mode mc = JStr ''CONTINUOUS'' then Inr True
            else if mode mc = JStr ''SCHEDULED'' then check_scheduled_time dt mc
            else if mode mc = JStr ''COUNTDOWN'' then check_countdown_time dt mc
            else Inr True) of
        Inl e \<Rightarrow> True
      | Inr b \<Rightarrow> b)"

section \<open>heartbeat.py: heartbeat or report\<close>

text \<open>
  The three reasons, in the source
  U+670D U+52A1 U+5668 U+5DF2 U+7981 U+7528 U+76D1 U+63A7 (the server has disabled
  monitoring),
  U+6240 U+6709 U+76D1 U+63A7 U+9879 U+5747 U+5DF2 U+7981 U+7528 (all monitored items
  are disabled) and
  U+5F53 U+524D U+65F6 U+95F4 U+4E0D U+5728 U+76D1 U+63A7 U+8303 U+56F4 U+5185 (the
  current time is outside the monitoring range).
\<close>

definition reason_server_disabled :: string where
  "reason_server_disabled =
     [CHR 0xE6, CHR 0x9C, CHR 0x8D, CHR 0xE5, CHR 0x8A, CHR 0xA1, CHR 0xE5, CHR 0x99,
      CHR 0xA8, CHR 0xE5, CHR 0xB7, CHR 0xB2, CHR 0xE7, CHR 0xA6, CHR 0x81, CHR 0xE7,
      CHR 0x94, CHR 0xA8, CHR 0xE7, CHR 0x9B, CHR 0x91, CHR 0xE6, CHR 0x8E, CHR 0xA7]"

definition reason_all_disabled :: string where
  "reason_all_disabled =
     [CHR 0xE6, CHR 0x89, CHR 0x80, CHR 0xE6, CHR 0x9C, CHR 0x89, CHR 0xE7, CHR 0x9B,
      CHR 0x91, CHR 0xE6, CHR 0x8E, CHR 0xA7, CHR 0xE9, CHR 0xA1, CHR 0xB9, CHR 0xE5,
      CHR 0x9D, CHR 0x87, CHR 0xE5, CHR 0xB7, CHR 0xB2, CHR 0xE7, CHR 0xA6, CHR 0x81,
      CHR 0xE7, CHR 0x94, CHR 0xA8]"

definition reason_outside_window :: string where
  "reason_outside_window =
     [CHR 0xE5, CHR 0xBD, CHR 0x93, CHR 0xE5, CHR 0x89, CHR 0x8D, CHR 0xE6, CHR 0x97,
      CHR 0xB6, CHR 0xE9, CHR 0x97, CHR 0xB4, CHR 0xE4, CHR 0xB8, CHR 0x8D, CHR 0xE5,
      CHR 0x9C, CHR 0xA8, CHR 0xE7, CHR 0x9B, CHR 0x91, CHR 0xE6, CHR 0x8E, CHR 0xA7,
      CHR 0xE8, CHR 0x8C, CHR 0x83, CHR 0xE5, CHR 0x9B, CHR 0xB4, CHR 0xE5, CHR 0x86,
      CHR 0x85]"

text \<open>\<^verbatim>\<open>HeartbeatManager.should_send_heartbeat\<close>.\<close>

definition should_send_heartbeat ::
  "(string \<Rightarrow> json option) \<Rightarrow> clock \<Rightarrow> MonitorConfig \<Rightarrow> bool \<times> string" where
  "should_send_heartbeat rc dt mc =
     (if \<not> truthy (is_server_active rc) then (True, reason_server_disabled)
      else if \<not> is_monitoring_enabled rc then (True, reason_all_disabled)
      else if \<not> is_monitoring_time dt mc then (True, reason_outside_window)
      else (False, ''''))"

section \<open>identity.py: the identifier and the credential\<close>

text \<open>
  \<^verbatim>\<open>base64.urlsafe_b64encode\<close> on a byte string (a \<open>string\<close> is a list of bytes):
  three bytes give four characters of the URL-safe alphabet, a last group of one or two
  bytes is padded with \<open>=\<close>.
\<close>

definition urlsafe_alphabet :: string where
  "urlsafe_alphabet = ''ABCDEFGHIJKLMNOPQRSTUVWXYZabcdefghijklmnopqrstuvwxyz0123456789-_''"

definition b64_char :: "nat \<Rightarrow> char" where
  "b64_char n = urlsafe_alphabet ! (n mod 64)"











section \<open>main.py: registration\<close>







text \<open>
  \<^verbatim>\<open>[m for m in names if m not in container]\<close>: the first test raises when the
  container supports no \<^verbatim>\<open>in\<close>.
\<close>

fun missing_from :: "json \<Rightarrow> string list \<Rightarrow> pyerr + string list" where
  "missing_from container [] = Inr []"
| "missing_from container (m # ms) =
     (case py_contains container m of
        Inl err \<Rightarrow> Inl err
      | Inr present \<Rightarrow>
          (case missing_from container ms of
             Inl err \<Rightarrow> Inl err
           | Inr rest \<Rightarrow> Inr (if present then rest else m # rest)))"










section \<open>Sample inputs\<close>

text \<open>Concrete values at which the theorems below are instantiated.\<close>

definition sample_env :: env where
  "sample_env = \<lparr>now = 1700000400, uuid4 = ''0b9c1f7e-5d2a-4c3b-9e8f-7a6b5c4d3e2f'',
                  writable = (\<lambda>p. True)\<rparr>"

definition sample_config :: "string \<Rightarrow> json option" where
  "sample_config =
     [''auth_token'' \<mapsto> JStr ''tok'', ''server_id'' \<mapsto> JInt 7,
      ''report_url'' \<mapsto> JStr ''http://localhost:8045/api/agent/report'',
      ''report_interval'' \<mapsto> JInt 45, ''is_active'' \<mapsto> JBool True]"

definition sample_error_world :: world where
  "sample_error_world =
     \<lparr>state = ERROR, error_start_time = 1700000000, error_retry_count = 0,
      files = [StateFile \<mapsto> StateJson ''error'' 1700000000,
               ClientIdFile \<mapsto> Text ''123e4567-e89b-12d3-a456-426614174000''],
      RUNTIME_CONFIG = sample_config,
      transitions = [(REGISTERING, ERROR)]\<rparr>"





definition sample_queue :: "string metrics" where
  "sample_queue =
     \<lparr>rows = [\<lparr>id_col = 1, timestamp = 1000, data = ''stale'', sent = 0\<rparr>,
              \<lparr>id_col = 2, timestamp = 90000, data = ''fresh'', sent = 0\<rparr>], seq = 2\<rparr>"

text \<open>
  The values of \<^verbatim>\<open>datetime.fromisoformat\<close> at the two strings the samples use, in
  microseconds since 1970 (2030-01-01 00:00:00); \<open>None\<close> stands for \<open>ValueError\<close>.
\<close>

definition sample_parser :: "string \<Rightarrow> pydatetime option" where
  "sample_parser s =
     (if s = ''2030-01-01T00:00:00+00:00'' then Some (Aware 1893456000000000)
      else if s = ''2030-01-01T00:00:00'' then Some (Naive 1893456000000000)
      else None)"

text \<open>Saturday 2026-11-07 10:00 and Tuesday 2026-11-03 10:00, local time equal to UTC.\<close>

definition sample_saturday :: clock where
  "sample_saturday =
     \<lparr>weekday = 5, hour = 10, minute = 0, local_now = 1794045600000000,
      utc_now = 1794045600000000, fromisoformat = sample_parser\<rparr>"

definition sample_tuesday :: clock where
  "sample_tuesday =
     \<lparr>weekday = 1, hour = 10, minute = 0, local_now = 1793700000000000,
      utc_now = 1793700000000000, fromisoformat = sample_parser\<rparr>"

definition sample_schedule :: "(string \<times> json) list" where
  "sample_schedule =
     [(''days'', JList [JStr ''1'', JStr ''2'', JStr ''3'', JStr ''4'', JStr ''5'']),
      (''start_time'', JStr ''09:00''), (''end_time'', JStr ''18:00'')]"

definition sample_scheduled :: MonitorConfig where
  "sample_scheduled =
     update_config [(''mode'', JStr ''SCHEDULED''), (''schedule'', JDict sample_schedule)]"


definition sample_continuous :: MonitorConfig where
  "sample_continuous = update_config []"

text \<open>The defaults with the server-active flag switched off.\<close>

definition sample_inactive_config :: "string \<Rightarrow> json option" where
  "sample_inactive_config = (map_of DEFAULT_CONFIG)(''is_active'' \<mapsto> JBool False)"












section \<open>Properties\<close>

subsection \<open>The sleep-retry schedule\<close>

text \<open>
  Claim C6.  The schedule is a fixed table by zero-based attempt index: attempt 0 waits
  0 seconds, attempt 1 waits 60, attempt 2 waits 120, every attempt from 3 on waits 300;
  the lookup never raises.
\<close>

theorem sleep_retry_schedule:
  "get_sleep_retry_interval 0 = Inr 0 \<and>
   get_sleep_retry_interval 1 = Inr 60 \<and>
   get_sleep_retry_interval 2 = Inr 120 \<and>
   (\<forall>n\<ge>3. get_sleep_retry_interval n = Inr 300)"
  by (simp add: get_sleep_retry_interval_def dict_index_def dict_get_def
      SLEEP_RETRY_INTERVALS_def)

theorem sleep_retry_schedule_witness:
  "(3::int) \<le> 999 \<and> get_sleep_retry_interval 999 = Inr 300"
  using sleep_retry_schedule by simp

subsection \<open>Setting the state that is already current\<close>

text \<open>
  Claim C10.  For every state \<open>s\<close>, \<open>set_state s\<close> in a manager whose state is
  already \<open>s\<close> changes nothing at all: the state, \<open>error_start_time\<close>,
  \<open>error_retry_count\<close>, every file (so the state file is not written) and the log
  stay as they are, also after any number of repetitions.  With \<open>s = ERROR\<close>:
  repeated \<open>set_state ERROR\<close> never increments \<open>error_retry_count\<close>.
\<close>

theorem set_state_same_state_noop:
  "state w = s \<Longrightarrow>
     set_state e s w = w \<and>
     (set_state e s ^^ n) w = w \<and>
     files (set_state e s w) = files w \<and>
     error_start_time ((set_state e s ^^ n) w) = error_start_time w \<and>
     error_retry_count ((set_state e s ^^ n) w) = error_retry_count w"
proof -
  assume s: "state w = s"
  have once: "set_state e s w = w"
    using s by (simp add: set_state_def)
  have many: "(set_state e s ^^ n) w = w"
    by (induction n) (simp_all add: once)
  show ?thesis
    by (simp add: once many)
qed

theorem set_state_same_state_noop_witness:
  "state sample_error_world = ERROR \<and>
   set_state sample_env ERROR sample_error_world = sample_error_world \<and>
   error_retry_count ((set_state sample_env ERROR ^^ 12) sample_error_world) = 0"
proof -
  have s: "state sample_error_world = ERROR"
    by (simp add: sample_error_world_def)
  have c: "error_retry_count sample_error_world = 0"
    by (simp add: sample_error_world_def)
  show ?thesis
    using s c set_state_same_state_noop [OF s, of sample_env 12] by simp
qed

subsection \<open>Pruning the queue\<close>

text \<open>
  Claim C5.  \<open>prune\<close> keeps exactly the rows whose timestamp is at or after the
  threshold \<open>current_time - max_age_seconds\<close>, in their order: every older row is
  deleted whatever its \<open>sent\<close> flag, in particular an unsent one, and no row at or
  newer than the threshold is deleted.
\<close>

theorem prune_by_age_only:
  "rows (prune t m db) = filter (\<lambda>r. t - m \<le> timestamp r) (rows db) \<and>
   (\<forall>r\<in>set (rows db). timestamp r < t - m \<longrightarrow> r \<notin> set (rows (prune t m db))) \<and>
   (\<forall>r\<in>set (rows db). sent r = 0 \<and> timestamp r < t - m
        \<longrightarrow> r \<notin> set (rows (prune t m db))) \<and>
   (\<forall>r\<in>set (rows db). t - m \<le> timestamp r \<longrightarrow> r \<in> set (rows (prune t m db))) \<and>
   seq (prune t m db) = seq db"
  by (auto simp: prune_def Let_def not_less)

theorem prune_by_age_only_witness:
  "\<lparr>id_col = 1, timestamp = 1000, data = ''stale'', sent = 0\<rparr> \<in> set (rows sample_queue) \<and>
   \<lparr>id_col = 1, timestamp = 1000, data = ''stale'', sent = 0\<rparr>
      \<notin> set (rows (prune 100000 86400 sample_queue)) \<and>
   rows (prune 100000 86400 sample_queue) =
      [\<lparr>id_col = 2, timestamp = 90000, data = ''fresh'', sent = 0\<rparr>]"
  using prune_by_age_only [of 100000 86400 sample_queue]
  by (simp add: sample_queue_def)

subsection \<open>The queue is first-in first-out\<close>

lemma fold_max_ge: "(a::int) \<le> fold max xs a \<and> (\<forall>x\<in>set xs. x \<le> fold max xs a)"
proof (induction xs arbitrary: a)
  case Nil
  then show ?case by simp
next
  case (Cons x xs)
  have "max x a \<le> fold max xs (max x a)" and "\<forall>y\<in>set xs. y \<le> fold max xs (max x a)"
    using Cons.IH [of "max x a"] by simp_all
  then show ?case by auto
qed


lemma next_id_gt_seq: "seq db < next_id db"
  using fold_max_ge [of "seq db" "map id_col (rows db)"] by (auto simp: next_id_def)








lemma fst_entry: "map fst (map entry xs) = map id_col xs"
  by (simp add: entry_def)










lemma seq_fold_update_sent: "seq (fold update_sent ids db) = seq db"
  by (induction ids arbitrary: db) (simp_all add: update_sent_def)









subsection \<open>Deletion and reinitialisation\<close>

lemma state_set_state [simp]: "state (set_state e s w) = s"
  by (simp add: set_state_def save_state_def write_file_def Let_def)


lemma config_set_state [simp]: "RUNTIME_CONFIG (set_state e s w) = RUNTIME_CONFIG w"
  by (simp add: set_state_def save_state_def write_file_def Let_def)



lemma clear_auth_info_other [simp]:
  "state (clear_auth_info w) = state w"
  "files (clear_auth_info w) = files w"
  "transitions (clear_auth_info w) = transitions w"
  "error_start_time (clear_auth_info w) = error_start_time w"
  "error_retry_count (clear_auth_info w) = error_retry_count w"
  by (simp_all add: clear_auth_info_def auth_keys_def)




lemma save_reinit_other [simp]:
  "state (save_reinit_timestamp e w) = state w"
  "RUNTIME_CONFIG (save_reinit_timestamp e w) = RUNTIME_CONFIG w"
  "transitions (save_reinit_timestamp e w) = transitions w"
  by (simp_all add: save_reinit_timestamp_def write_file_def Let_def)











subsection \<open>Automatic recovery from the error state\<close>







subsection \<open>The monitoring window\<close>







lemma truthy_strs: "truthy (JList (map JStr ds)) \<longleftrightarrow> ds \<noteq> []"
  by simp









subsection \<open>Heartbeat or report\<close>

lemma is_server_active_value:
  "is_server_active rc = (case rc ''is_active'' of Some v \<Rightarrow> v | None \<Rightarrow> JBool True)"
  by (simp add: is_server_active_def runtime_get_def dict_index_def DEFAULT_CONFIG_def)

lemma is_monitoring_enabled_dict:
  assumes "rc ''monitor_items'' = Some (JDict items)"
  shows "is_monitoring_enabled rc =
     (\<exists>v\<in>snd ` set items. \<exists>c. v = JDict c \<and> truthy (dict_get c ''enabled'' (JBool False)))"
proof -
  have "item_enabled v = (\<exists>c. v = JDict c \<and> truthy (dict_get c ''enabled'' (JBool False)))" for v
    by (cases v) (simp_all add: item_enabled_def)
  then show ?thesis
    using assms
    by (simp add: is_monitoring_enabled_def runtime_get_def dict_index_def DEFAULT_CONFIG_def
        list_ex_iff)
qed

text \<open>
  Claim C7.  \<open>should_send_heartbeat\<close> answers true with a reason for the first of
  three conditions that holds: the server-active flag is false, no monitored family is
  enabled, the window evaluator reports the current instant outside the window; and it
  answers \<open>(False, '''')\<close> when none holds.  The flag is the stored \<open>is_active\<close>
  (true when absent), and a family is enabled when its entry of \<open>monitor_items\<close> is a
  dictionary with a true \<open>enabled\<close>.  With the flag false the answer is true with the
  server-disabled reason whatever the families and the window: so it is with all
  families enabled in continuous mode.
\<close>

theorem heartbeat_priority:
  "(\<not> truthy (is_server_active rc) \<longrightarrow>
      should_send_heartbeat rc dt mc = (True, reason_server_disabled)) \<and>
   (truthy (is_server_active rc) \<and> \<not> is_monitoring_enabled rc \<longrightarrow>
      should_send_heartbeat rc dt mc = (True, reason_all_disabled)) \<and>
   (truthy (is_server_active rc) \<and> is_monitoring_enabled rc \<and> \<not> is_monitoring_time dt mc \<longrightarrow>
      should_send_heartbeat rc dt mc = (True, reason_outside_window)) \<and>
   (truthy (is_server_active rc) \<and> is_monitoring_enabled rc \<and> is_monitoring_time dt mc \<longrightarrow>
      should_send_heartbeat rc dt mc = (False, '''')) \<and>
   fst (should_send_heartbeat rc dt mc) =
     (\<not> truthy (is_server_active rc) \<or> \<not> is_monitoring_enabled rc \<or>
      \<not> is_monitoring_time dt mc) \<and>
   is_server_active rc = (case rc ''is_active'' of Some v \<Rightarrow> v | None \<Rightarrow> JBool True) \<and>
   (rc ''monitor_items'' = Some (JDict items) \<longrightarrow>
      is_monitoring_enabled rc =
        (\<exists>v\<in>snd ` set items. \<exists>c. v = JDict c \<and> truthy (dict_get c ''enabled'' (JBool False)))) \<and>
   reason_server_disabled \<noteq> '''' \<and> reason_all_disabled \<noteq> '''' \<and>
   reason_outside_window \<noteq> '''' \<and>
   is_monitoring_enabled sample_inactive_config \<and>
   is_monitoring_time sample_tuesday sample_continuous \<and>
   should_send_heartbeat sample_inactive_config sample_tuesday sample_continuous =
     (True, reason_server_disabled)"
proof -
  have p1: "\<not> truthy (is_server_active rc) \<longrightarrow>
      should_send_heartbeat rc dt mc = (True, reason_server_disabled)"
    and p2: "truthy (is_server_active rc) \<and> \<not> is_monitoring_enabled rc \<longrightarrow>
      should_send_heartbeat rc dt mc = (True, reason_all_disabled)"
    and p3: "truthy (is_server_active rc) \<and> is_monitoring_enabled rc \<and>
        \<not> is_monitoring_time dt mc \<longrightarrow>
      should_send_heartbeat rc dt mc = (True, reason_outside_window)"
    and p4: "truthy (is_server_active rc) \<and> is_monitoring_enabled rc \<and>
        is_monitoring_time dt mc \<longrightarrow>
      should_send_heartbeat rc dt mc = (False, '''')"
    and p5: "fst (should_send_heartbeat rc dt mc) =
     (\<not> truthy (is_server_active rc) \<or> \<not> is_monitoring_enabled rc \<or>
      \<not> is_monitoring_time dt mc)"
    by (simp_all add: should_send_heartbeat_def)
  have f: "is_server_active rc = (case rc ''is_active'' of Some v \<Rightarrow> v | None \<Rightarrow> JBool True)"
    by (rule is_server_active_value)
  have g: "rc ''monitor_items'' = Some (JDict items) \<longrightarrow>
      is_monitoring_enabled rc =
        (\<exists>v\<in>snd ` set items. \<exists>c. v = JDict c \<and> truthy (dict_get c ''enabled'' (JBool False)))"
    using is_monitoring_enabled_dict by blast
  have r: "reason_server_disabled \<noteq> ''''" "reason_all_disabled \<noteq> ''''"
    "reason_outside_window \<noteq> ''''"
    by (simp_all add: reason_server_disabled_def reason_all_disabled_def
        reason_outside_window_def)
  have s1: "is_monitoring_enabled sample_inactive_config"
    by (simp add: is_monitoring_enabled_def runtime_get_def dict_index_def DEFAULT_CONFIG_def
        sample_inactive_config_def item_enabled_def dict_get_def)
  have s2: "is_monitoring_time sample_tuesday sample_continuous"
    by (simp add: is_monitoring_time_def sample_continuous_def update_config_def dict_get_def)
  have s3: "\<not> truthy (is_server_active sample_inactive_config)"
    by (simp add: is_server_active_value sample_inactive_config_def)
  have s4: "should_send_heartbeat sample_inactive_config sample_tuesday sample_continuous =
     (True, reason_server_disabled)"
    using s3 by (simp add: should_send_heartbeat_def)
  from p1 p2 p3 p4 p5 f g r s1 s2 s4 show ?thesis
    by (intro conjI)
qed

theorem heartbeat_priority_witness:
  "\<not> truthy (is_server_active sample_inactive_config) \<and>
   should_send_heartbeat sample_inactive_config sample_saturday sample_scheduled =
     (True, reason_server_disabled) \<and>
   truthy (is_server_active (map_of DEFAULT_CONFIG)) \<and>
   is_monitoring_enabled (map_of DEFAULT_CONFIG) \<and>
   \<not> is_monitoring_time sample_saturday sample_scheduled \<and>
   should_send_heartbeat (map_of DEFAULT_CONFIG) sample_saturday sample_scheduled =
     (True, reason_outside_window) \<and>
   is_monitoring_time sample_tuesday sample_scheduled \<and>
   should_send_heartbeat (map_of DEFAULT_CONFIG) sample_tuesday sample_scheduled = (False, '''')"
proof -
  have a: "\<not> truthy (is_server_active sample_inactive_config)"
    by (simp add: is_server_active_value sample_inactive_config_def)
  have b: "truthy (is_server_active (map_of DEFAULT_CONFIG))"
    by (simp add: is_server_active_value DEFAULT_CONFIG_def)
  have c: "is_monitoring_enabled (map_of DEFAULT_CONFIG)"
    by (simp add: is_monitoring_enabled_def runtime_get_def dict_index_def DEFAULT_CONFIG_def
        item_enabled_def dict_get_def)
  have d: "\<not> is_monitoring_time sample_saturday sample_scheduled"
    by code_simp
  have e: "is_monitoring_time sample_tuesday sample_scheduled"
    by code_simp
  have r1: "should_send_heartbeat sample_inactive_config sample_saturday sample_scheduled =
     (True, reason_server_disabled)"
    using heartbeat_priority [of sample_inactive_config sample_saturday sample_scheduled] a
    by blast
  have r2: "should_send_heartbeat (map_of DEFAULT_CONFIG) sample_saturday sample_scheduled =
     (True, reason_outside_window)"
    using heartbeat_priority [of "map_of DEFAULT_CONFIG" sample_saturday sample_scheduled] b c d
    by blast
  have r3: "should_send_heartbeat (map_of DEFAULT_CONFIG) sample_tuesday sample_scheduled =
     (False, '''')"
    using heartbeat_priority [of "map_of DEFAULT_CONFIG" sample_tuesday sample_scheduled] b c e
    by blast
  from a r1 b c d r2 e r3 show ?thesis
    by (intro conjI)
qed

subsection \<open>The credential\<close>

lemma length_urlsafe_alphabet: "length urlsafe_alphabet = 64"
  by (simp add: urlsafe_alphabet_def)

lemma b64_char_in: "b64_char n \<in> set urlsafe_alphabet"
  unfolding b64_char_def by (rule nth_mem) (simp add: length_urlsafe_alphabet)

lemma eq_not_in_alphabet: "CHR ''='' \<notin> set urlsafe_alphabet"
  by (simp add: urlsafe_alphabet_def)

lemma b64_char_not_eq: "b64_char n \<noteq> CHR ''=''"
  using b64_char_in [of n] eq_not_in_alphabet by metis












subsection \<open>Registration\<close>







lemma missing_from_subset: "missing_from c ms = Inr r \<Longrightarrow> set r \<subseteq> set ms"
proof (induction ms arbitrary: r)
  case Nil
  then show ?case by simp
next
  case (Cons m ms)
  then show ?case by (auto split: sum.splits if_splits)
qed



















end
